theory Spec2Isabelle
  imports Complex_Main
begin

section \<open>Strings, byte strings and exceptions\<close>

text \<open>
  A Python 3 \<^verbatim>\<open>str\<close> is a sequence of Unicode code points; a code point is modelled by
  its number. \<open>str\<close> turns an Isabelle literal into such a string. A \<^verbatim>\<open>bytes\<close> object is a
  sequence of octets, kept apart from \<^verbatim>\<open>str\<close> by its own type, as in Python 3.
\<close>

type_synonym pystr = "nat list"

definition str :: "string \<Rightarrow> pystr" where
  "str s = map of_char s"

datatype bytes = Bytes "nat list"

text \<open>
  The exceptions that cross the code of \<^verbatim>\<open>cinder/coordination.py\<close>. In tooz,
  \<^verbatim>\<open>ToozConnectionError\<close> and \<^verbatim>\<open>LockAcquireFailed\<close> are subclasses of \<^verbatim>\<open>ToozError\<close>;
  the constructor \<open>ToozError\<close> stands for every other (generic) \<^verbatim>\<open>ToozError\<close>.
  \<open>OtherError\<close> is any exception outside these classes (what a wrapped operation or a
  misbehaving backend may raise), named by its description.
\<close>

datatype exn =
    ToozError
  | ToozConnectionError
  | LockAcquireFailed
  | LockCreationFailed
  | UnicodeEncodeError
  | AttributeError
  | KeyError
  | IndexError
  | OtherError pystr

text \<open>\<^verbatim>\<open>except coordination.ToozError\<close> catches the class and its subclasses.\<close>

fun is_ToozError :: "exn \<Rightarrow> bool" where
  "is_ToozError ToozError = True"
| "is_ToozError ToozConnectionError = True"
| "is_ToozError LockAcquireFailed = True"
| "is_ToozError _ = False"

definition is_ascii :: "pystr \<Rightarrow> bool" where
  "is_ascii s = list_all (\<lambda>c. c < 128) s"

text \<open>
  \<^verbatim>\<open>s.encode('ascii')\<close>: every code point below 128 becomes the octet of the same number;
  any other code point raises \<^verbatim>\<open>UnicodeEncodeError\<close>.
\<close>

definition encode_ascii :: "pystr \<Rightarrow> exn + bytes" where
  "encode_ascii s = (if is_ascii s then Inr (Bytes s) else Inl UnicodeEncodeError)"

section \<open>The backend, as the code sees it\<close>

text \<open>
  The tooz backend is an external collaborator. A driver object is what
  \<^verbatim>\<open>coordination.get_coordinator(url, member_id)\<close> returns: it carries the member id it was
  created for and its \<^verbatim>\<open>requires_beating\<close> flag. A lock object is what the driver's
  \<^verbatim>\<open>get_lock(name)\<close> returns: it carries the driver it came from and its \<^verbatim>\<open>name\<close>.
\<close>

record driver =
  member_id :: bytes
  requires_beating :: bool

datatype lock = Lock (driver_of: driver) (name_of: bytes)

text \<open>The configuration group \<^verbatim>\<open>CONF.coordination\<close> (lines 37--57).\<close>

record conf =
  conf_backend_url :: pystr
  conf_heartbeat :: real
  conf_initial_reconnect_backoff :: real
  conf_max_reconnect_backoff :: real

text \<open>
  What the backend answers to one connection attempt of \<^verbatim>\<open>_start\<close>:
  \<open>get_coordinator_result\<close> is the exception \<^verbatim>\<open>get_coordinator\<close> raises, or the
  \<^verbatim>\<open>requires_beating\<close> flag of the driver it returns; \<open>driver_start_result\<close> is the
  exception the driver's \<^verbatim>\<open>start()\<close> raises, or \<open>None\<close> when it returns.
\<close>

record connect_oracle =
  get_coordinator_result :: "exn + bool"
  driver_start_result :: "exn option"

text \<open>The blocking policy of a guarded call: \<^verbatim>\<open>True\<close>, \<^verbatim>\<open>False\<close>, or a timeout in seconds.\<close>

datatype blocking = Block | NoBlock | Timeout real

text \<open>The log lines of the module, with the values they are formatted from.\<close>

datatype logline =
    ErrorStarting
  | StartedSuccessfully
  | HeartbeatConnectionError
  | HeartbeatError
  | Reconnecting
  | ReconnectFailed nat real
  | Reconnected
  | LockAcquiredBy bytes pystr real
  | LockReleasedBy bytes pystr "real option"

text \<open>
  The calls the code makes on its collaborators, in the order it makes them: the
  observable history of a run.
\<close>

datatype event =
    GetCoordinator pystr bytes
  | DriverStart
  | DriverStop
  | DriverHeartbeat
  | DriverGetLock bytes
  | DeadSet
  | DeadWait real
  | Spawn
  | LockAcquire bytes blocking bool
  | LockRelease bytes
  | Call pystr
  | Log logline

section \<open>The Coordinator object\<close>

text \<open>
  The fields of \<^verbatim>\<open>Coordinator\<close> (lines 71--77). \<open>ev\<close> is \<^verbatim>\<open>self._ev\<close>: \<open>None\<close>, or the
  handle of the green thread that runs the heartbeat loop. \<open>dead\<close> is \<^verbatim>\<open>self._dead\<close>:
  \<open>None\<close>, or a \<^verbatim>\<open>threading.Event\<close> with its flag.
\<close>

datatype greenthread = GreenThread

record Coordinator =
  coordinator :: "driver option"
  agent_id :: pystr
  started :: bool
  prefix :: pystr
  ev :: "greenthread option"
  dead :: "bool option"

text \<open>
  \<^verbatim>\<open>__init__(agent_id=None, prefix='')\<close>; \<open>uuid4\<close> is the string \<^verbatim>\<open>str(uuid.uuid4())\<close> would
  give. \<^verbatim>\<open>agent_id or ...\<close> takes the random id for \<^verbatim>\<open>None\<close> and for the empty string.
\<close>

definition init :: "pystr \<Rightarrow> pystr option \<Rightarrow> pystr \<Rightarrow> Coordinator" where
  "init uuid4 agent pre =
     \<lparr> coordinator = None,
       agent_id = (case agent of None \<Rightarrow> uuid4 | Some a \<Rightarrow> if a = [] then uuid4 else a),
       started = False,
       prefix = pre,
       ev = None,
       dead = None \<rparr>"

text \<open>
  The invariant of the specification's data model: connected (\<^verbatim>\<open>started\<close>) if and only if
  there is a backend handle (\<^verbatim>\<open>self.coordinator is not None\<close>).
\<close>

definition connection_invariant :: "Coordinator \<Rightarrow> bool" where
  "connection_invariant c = (started c = (coordinator c \<noteq> None))"

text \<open>
  \<^verbatim>\<open>get_lock\<close> (lines 107--118). The name is encoded first; only then is
  \<^verbatim>\<open>self.coordinator\<close> tested. The result comes with the calls made on the backend.
\<close>

definition get_lock :: "Coordinator \<Rightarrow> pystr \<Rightarrow> (exn + lock) \<times> event list" where
  "get_lock self name =
     (case encode_ascii (prefix self @ name) of
        Inl e \<Rightarrow> (Inl e, [])
      | Inr lock_name \<Rightarrow>
          (case coordinator self of
             Some d \<Rightarrow> (Inr (Lock d lock_name), [DriverGetLock lock_name])
           | None \<Rightarrow> (Inl LockCreationFailed, [])))"

text \<open>
  \<^verbatim>\<open>_start\<close> (lines 140--145). \<^verbatim>\<open>self.coordinator\<close> is assigned as soon as
  \<^verbatim>\<open>get_coordinator\<close> returns, before the driver's \<^verbatim>\<open>start()\<close> is called. The result is
  the object as the call leaves it, the calls made, and the exception raised, if any.
\<close>

definition private_start ::
  "conf \<Rightarrow> connect_oracle \<Rightarrow> Coordinator \<Rightarrow> Coordinator \<times> event list \<times> exn option" where
  "private_start cfg orc self =
     (case encode_ascii (prefix self @ agent_id self) of
        Inl e \<Rightarrow> (self, [], Some e)
      | Inr member \<Rightarrow>
          (case get_coordinator_result orc of
             Inl e \<Rightarrow> (self, [GetCoordinator (conf_backend_url cfg) member], Some e)
           | Inr beating \<Rightarrow>
               (self\<lparr> coordinator := Some \<lparr> member_id = member, requires_beating = beating \<rparr> \<rparr>,
                [GetCoordinator (conf_backend_url cfg) member, DriverStart],
                driver_start_result orc)))"

section \<open>The heartbeat thread and the caller of stop\<close>

text \<open>
  The heartbeat loop runs on a thread of its own, so it is modelled by its control
  points, one step at a time:
  \<^item> \<open>AtWhile\<close>: about to test the condition of the \<^verbatim>\<open>while\<close> (line 132);
  \<^item> \<open>AtBeat\<close>: about to call \<^verbatim>\<open>self._heartbeat()\<close> (lines 134, 147--158);
  \<^item> \<open>AtBeatWait\<close>: in \<^verbatim>\<open>self._dead.wait(heartbeat)\<close> (line 138);
  \<^item> \<open>AtStart attempt backoff\<close>: in \<^verbatim>\<open>_reconnect\<close>, about to call \<^verbatim>\<open>self._start()\<close>
    (line 167) for the given attempt, with the current value of \<^verbatim>\<open>backoff\<close>;
  \<^item> \<open>AtBackoffWait attempt backoff\<close>: in \<^verbatim>\<open>self._dead.wait(backoff)\<close> (line 174);
  \<^item> \<open>Finished r\<close>: \<^verbatim>\<open>heartbeat()\<close> has returned (\<open>None\<close>) or raised.
\<close>

datatype hb_pc =
    AtWhile
  | AtBeat
  | AtBeatWait
  | AtStart nat real
  | AtBackoffWait nat real
  | Finished "exn option"

text \<open>
  What the environment answers to one step of the loop: the exception the driver's
  \<^verbatim>\<open>heartbeat()\<close> raises (or \<open>None\<close>), the answers to a connection attempt, and the
  sample \<^verbatim>\<open>random.random()\<close> returns inside \<^verbatim>\<open>random.uniform\<close>.
\<close>

record hb_oracle =
  beat_result :: "exn option"
  connect :: connect_oracle
  jitter :: real

text \<open>\<^verbatim>\<open>random.uniform(a, b)\<close> is \<^verbatim>\<open>a + (b - a) * random()\<close>; floats are taken as reals.\<close>

definition uniform :: "real \<Rightarrow> real \<Rightarrow> real \<Rightarrow> real" where
  "uniform a b u = a + (b - a) * u"

text \<open>Line 170: the next value of \<^verbatim>\<open>backoff\<close>.\<close>

definition next_backoff :: "conf \<Rightarrow> real \<Rightarrow> real \<Rightarrow> real" where
  "next_backoff cfg backoff u =
     min (conf_max_reconnect_backoff cfg)
         (uniform (conf_initial_reconnect_backoff cfg) (backoff * 3) u)"

text \<open>
  One step of the heartbeat thread (\<^verbatim>\<open>heartbeat\<close>, \<^verbatim>\<open>_heartbeat\<close>, \<^verbatim>\<open>_reconnect\<close>; lines
  120--175): the next control point, the object and the calls made. The value of
  \<^verbatim>\<open>self._dead.wait(...)\<close> is dropped at both waits, as in the source.
\<close>

fun hb_step :: "conf \<Rightarrow> hb_oracle \<Rightarrow> hb_pc \<Rightarrow> Coordinator \<Rightarrow> hb_pc \<times> Coordinator \<times> event list" where
  "hb_step cfg orc AtWhile self =
     (case coordinator self of
        None \<Rightarrow> (Finished None, self, [])
      | Some d \<Rightarrow>
          (case dead self of
             None \<Rightarrow> (Finished (Some AttributeError), self, [])
           | Some flag \<Rightarrow> if flag then (Finished None, self, []) else (AtBeat, self, [])))"
| "hb_step cfg orc AtBeat self =
     (case coordinator self of
        None \<Rightarrow> (Finished (Some AttributeError), self, [])
      | Some d \<Rightarrow>
          (case beat_result orc of
             None \<Rightarrow> (AtBeatWait, self, [DriverHeartbeat])
           | Some e \<Rightarrow>
               if e = ToozConnectionError
               then (AtStart 1 (conf_initial_reconnect_backoff cfg), self,
                     [DriverHeartbeat, Log HeartbeatConnectionError, Log Reconnecting])
               else if is_ToozError e
               then (AtBeatWait, self, [DriverHeartbeat, Log HeartbeatError])
               else (Finished (Some e), self, [DriverHeartbeat])))"
| "hb_step cfg orc AtBeatWait self =
     (case dead self of
        None \<Rightarrow> (Finished (Some AttributeError), self, [])
      | Some flag \<Rightarrow> (AtWhile, self, [DeadWait (conf_heartbeat cfg)]))"
| "hb_step cfg orc (AtStart attempt backoff) self =
     (case private_start cfg (connect orc) self of
        (self', evs, None) \<Rightarrow> (AtWhile, self', evs @ [Log Reconnected])
      | (self', evs, Some e) \<Rightarrow>
          if is_ToozError e
          then (AtBackoffWait attempt (next_backoff cfg backoff (jitter orc)), self',
                evs @ [Log (ReconnectFailed attempt (next_backoff cfg backoff (jitter orc)))])
          else (Finished (Some e), self', evs))"
| "hb_step cfg orc (AtBackoffWait attempt backoff) self =
     (case dead self of
        None \<Rightarrow> (Finished (Some AttributeError), self, [])
      | Some flag \<Rightarrow> (AtStart (Suc attempt) backoff, self, [DeadWait backoff]))"
| "hb_step cfg orc (Finished r) self = (Finished r, self, [])"

text \<open>
  The control points of a thread that calls \<^verbatim>\<open>stop()\<close> (lines 96--105): about to test
  \<^verbatim>\<open>self.started\<close>, to call the driver's \<^verbatim>\<open>stop()\<close>, to set \<^verbatim>\<open>self._dead\<close>, to test
  \<^verbatim>\<open>self._ev\<close> and wait for it, to clear the three fields; returned; raised.
\<close>

datatype stop_pc =
    StopEntry
  | StopDriver
  | StopSignal
  | StopJoin
  | StopClear
  | StopReturned
  | StopRaised exn

text \<open>
  The world: the Coordinator object, the heartbeat thread that \<^verbatim>\<open>start()\<close> spawned (if
  any), the thread that calls \<^verbatim>\<open>stop()\<close>, and the history of calls.
\<close>

record world =
  obj :: Coordinator
  loop :: "hb_pc option"
  caller :: stop_pc
  trace :: "event list"

definition boot :: "Coordinator \<Rightarrow> world" where
  "boot c = \<lparr> obj = c, loop = None, caller = StopEntry, trace = [] \<rparr>"

text \<open>
  \<^verbatim>\<open>start\<close> (lines 79--94), run by its caller in one piece. An exception of \<^verbatim>\<open>_start\<close> is
  logged when it is a \<^verbatim>\<open>ToozError\<close> and raised again either way; nothing is undone.
  \<^verbatim>\<open>eventlet.spawn\<close> puts the new thread at the head of its loop.
\<close>

definition start :: "conf \<Rightarrow> connect_oracle \<Rightarrow> world \<Rightarrow> world \<times> exn option" where
  "start cfg orc w =
     (if started (obj w) then (w, None)
      else
        (case private_start cfg orc ((obj w)\<lparr> dead := Some False \<rparr>) of
           (self1, evs, Some e) \<Rightarrow>
             (w\<lparr> obj := self1,
                 trace := trace w @ evs @ (if is_ToozError e then [Log ErrorStarting] else []) \<rparr>,
              Some e)
         | (self1, evs, None) \<Rightarrow>
             (if (case coordinator self1 of None \<Rightarrow> False | Some d \<Rightarrow> requires_beating d)
              then (w\<lparr> obj := self1\<lparr> started := True, ev := Some GreenThread \<rparr>,
                       loop := Some AtWhile,
                       trace := trace w @ evs @ [Spawn, Log StartedSuccessfully] \<rparr>,
                    None)
              else (w\<lparr> obj := self1\<lparr> started := True \<rparr>,
                       trace := trace w @ evs @ [Log StartedSuccessfully] \<rparr>,
                    None))))"

text \<open>
  One step of the thread that calls \<^verbatim>\<open>stop()\<close>; the argument is the exception the
  driver's \<^verbatim>\<open>stop()\<close> raises, if any. \<^verbatim>\<open>self._ev.wait()\<close> blocks until the green thread
  has ended (no step: \<open>None\<close>), then returns, or raises the exception the thread died of.
\<close>

fun stop_step :: "exn option \<Rightarrow> world \<Rightarrow> world option" where
  "stop_step orc w =
     (case caller w of
        StopEntry \<Rightarrow> Some (w\<lparr> caller := (if started (obj w) then StopDriver else StopReturned) \<rparr>)
      | StopDriver \<Rightarrow>
          (case coordinator (obj w) of
             None \<Rightarrow> Some (w\<lparr> caller := StopRaised AttributeError \<rparr>)
           | Some d \<Rightarrow>
               (case orc of
                  Some e \<Rightarrow> Some (w\<lparr> caller := StopRaised e, trace := trace w @ [DriverStop] \<rparr>)
                | None \<Rightarrow> Some (w\<lparr> caller := StopSignal, trace := trace w @ [DriverStop] \<rparr>)))
      | StopSignal \<Rightarrow>
          (case dead (obj w) of
             None \<Rightarrow> Some (w\<lparr> caller := StopRaised AttributeError \<rparr>)
           | Some flag \<Rightarrow>
               Some (w\<lparr> obj := (obj w)\<lparr> dead := Some True \<rparr>, caller := StopJoin,
                        trace := trace w @ [DeadSet] \<rparr>))
      | StopJoin \<Rightarrow>
          (case ev (obj w) of
             None \<Rightarrow> Some (w\<lparr> caller := StopClear \<rparr>)
           | Some g \<Rightarrow>
               (case loop w of
                  Some (Finished None) \<Rightarrow> Some (w\<lparr> caller := StopClear \<rparr>)
                | Some (Finished (Some e)) \<Rightarrow> Some (w\<lparr> caller := StopRaised e \<rparr>)
                | _ \<Rightarrow> None))
      | StopClear \<Rightarrow>
          Some (w\<lparr> obj := (obj w)\<lparr> ev := None, coordinator := None, started := False \<rparr>,
                   caller := StopReturned \<rparr>)
      | StopReturned \<Rightarrow> None
      | StopRaised e \<Rightarrow> None)"

text \<open>
  A schedule is a list of labels: which thread moves next, and what the environment
  answers. A finished or blocked thread cannot move (\<open>None\<close>).
\<close>

datatype label = LoopStep hb_oracle | StopStep "exn option"

fun is_Finished :: "hb_pc \<Rightarrow> bool" where
  "is_Finished (Finished r) = True"
| "is_Finished _ = False"

definition step :: "conf \<Rightarrow> label \<Rightarrow> world \<Rightarrow> world option" where
  "step cfg l w =
     (case l of
        LoopStep orc \<Rightarrow>
          (case loop w of
             None \<Rightarrow> None
           | Some pc \<Rightarrow>
               if is_Finished pc then None
               else (case hb_step cfg orc pc (obj w) of
                       (pc', self', evs) \<Rightarrow>
                         Some (w\<lparr> obj := self', loop := Some pc', trace := trace w @ evs \<rparr>)))
      | StopStep orc \<Rightarrow> stop_step orc w)"

fun exec :: "conf \<Rightarrow> label list \<Rightarrow> world \<Rightarrow> world option" where
  "exec cfg [] w = Some w"
| "exec cfg (l # ls) w = (case step cfg l w of None \<Rightarrow> None | Some w' \<Rightarrow> exec cfg ls w')"

section \<open>The guarded call\<close>

text \<open>
  \<^verbatim>\<open>lock_name.format(**call_args)\<close> is Python's own. The template is taken as parsed
  (what \<^verbatim>\<open>string.Formatter.parse\<close> splits it into): literal text and replacement fields,
  a field being an argument name followed by attribute and index accesses, as in
  \<^verbatim>\<open>'{f_name}-{vol.id}-{snap[name]}'\<close>. Conversions and format specifications are not
  modelled.
\<close>

datatype accessor = Attr pystr | Item pystr

datatype segment = Literal pystr | Field pystr "accessor list"

text \<open>
  The values bound to the parameters are Python objects of any kind; what the wrapper
  needs of them is taken as a parameter: attribute access, indexing, \<^verbatim>\<open>format(v, '')\<close>,
  and the \<^verbatim>\<open>str\<close> object of a given text.
\<close>

record 'v pyops =
  py_getattr :: "'v \<Rightarrow> pystr \<Rightarrow> exn + 'v"
  py_getitem :: "'v \<Rightarrow> pystr \<Rightarrow> exn + 'v"
  py_format :: "'v \<Rightarrow> exn + pystr"
  py_str :: "pystr \<Rightarrow> 'v"

fun lookup :: "'v pyops \<Rightarrow> 'v \<Rightarrow> accessor list \<Rightarrow> exn + 'v" where
  "lookup ops v [] = Inr v"
| "lookup ops v (Attr a # rest) =
     (case py_getattr ops v a of Inl e \<Rightarrow> Inl e | Inr v' \<Rightarrow> lookup ops v' rest)"
| "lookup ops v (Item k # rest) =
     (case py_getitem ops v k of Inl e \<Rightarrow> Inl e | Inr v' \<Rightarrow> lookup ops v' rest)"

text \<open>
  An empty or all-digit argument name is positional; \<^verbatim>\<open>format\<close> is called with keyword
  arguments only, so a positional field raises \<^verbatim>\<open>IndexError\<close>. A name that is not bound
  raises \<^verbatim>\<open>KeyError\<close>.
\<close>

definition positional :: "pystr \<Rightarrow> bool" where
  "positional n = list_all (\<lambda>c. 48 \<le> c \<and> c \<le> 57) n"

definition format_field :: "'v pyops \<Rightarrow> (pystr \<rightharpoonup> 'v) \<Rightarrow> pystr \<Rightarrow> accessor list \<Rightarrow> exn + pystr" where
  "format_field ops kwargs n path =
     (if positional n then Inl IndexError
      else (case kwargs n of
              None \<Rightarrow> Inl KeyError
            | Some v \<Rightarrow>
                (case lookup ops v path of Inl e \<Rightarrow> Inl e | Inr v' \<Rightarrow> py_format ops v')))"

fun format :: "'v pyops \<Rightarrow> segment list \<Rightarrow> (pystr \<rightharpoonup> 'v) \<Rightarrow> exn + pystr" where
  "format ops [] kwargs = Inr []"
| "format ops (Literal s # rest) kwargs =
     (case format ops rest kwargs of Inl e \<Rightarrow> Inl e | Inr t \<Rightarrow> Inr (s @ t))"
| "format ops (Field n path # rest) kwargs =
     (case format_field ops kwargs n path of
        Inl e \<Rightarrow> Inl e
      | Inr s \<Rightarrow> (case format ops rest kwargs of Inl e \<Rightarrow> Inl e | Inr t \<Rightarrow> Inr (s @ t)))"

text \<open>
  A wrapped operation \<^verbatim>\<open>f\<close> with actual arguments of type \<open>'a\<close> (the \<^verbatim>\<open>*a, **k\<close> of a
  call): its \<^verbatim>\<open>__name__\<close>, the binding \<^verbatim>\<open>inspect.getcallargs(f, *a, **k)\<close> of parameter
  names to values (or the exception it raises), and the outcome of \<^verbatim>\<open>f(*a, **k)\<close>: the
  exception raised or the value returned.
\<close>

record ('a, 'v, 'r) pyfunc =
  f_name :: pystr
  getcallargs :: "'a \<Rightarrow> exn + (pystr \<rightharpoonup> 'v)"
  call :: "'a \<Rightarrow> exn + 'r"

text \<open>
  Lines 225--226 and the argument of \<^verbatim>\<open>get_lock\<close> in line 227: the resolved lock name.
  The entry \<^verbatim>\<open>f_name\<close> is written last, over a parameter of that name.
\<close>

definition resolve_name :: "'v pyops \<Rightarrow> segment list \<Rightarrow> ('a, 'v, 'r) pyfunc \<Rightarrow> 'a \<Rightarrow> exn + pystr" where
  "resolve_name ops lock_name f a =
     (case getcallargs f a of
        Inl e \<Rightarrow> Inl e
      | Inr call_args \<Rightarrow>
          format ops lock_name (call_args(str ''f_name'' \<mapsto> py_str ops (f_name f))))"

text \<open>
  What the environment answers to one guarded call: whether the lock can be had (at
  once, within the timeout, or ever, by the policy), and the three readings of
  \<^verbatim>\<open>timeutils.now()\<close>.
\<close>

record lock_oracle =
  available :: bool
  t1 :: real
  t2 :: real
  t3 :: real

text \<open>
  The lock's \<^verbatim>\<open>acquire(blocking)\<close>, by the docstring of \<^verbatim>\<open>synchronized\<close> (lines 185--188):
  \<^verbatim>\<open>True\<close> blocks until the lock is acquired (\<open>None\<close>: it never is, the call does not
  return); \<^verbatim>\<open>False\<close> and a timeout return whether the lock was acquired.
\<close>

fun acquire :: "blocking \<Rightarrow> bool \<Rightarrow> bool option" where
  "acquire Block avail = (if avail then Some True else None)"
| "acquire NoBlock avail = Some avail"
| "acquire (Timeout seconds) avail = Some avail"

text \<open>
  \<^verbatim>\<open>synchronized(lock_name, blocking, coordinator)(f)(*a, **k)\<close> (lines 223--249): the
  outcome of the call (\<open>None\<close> when it never returns) and the calls made.
  \<^verbatim>\<open>with lock(blocking)\<close> raises \<^verbatim>\<open>LockAcquireFailed\<close> when \<^verbatim>\<open>acquire\<close> returns false
  (line 191) and releases the lock on the way out of the block otherwise; the
  \<^verbatim>\<open>finally\<close> clause logs after that. The lock's \<^verbatim>\<open>release()\<close> and the log calls are
  taken not to raise.
\<close>

definition synchronized ::
  "'v pyops \<Rightarrow> segment list \<Rightarrow> blocking \<Rightarrow> Coordinator \<Rightarrow> lock_oracle \<Rightarrow>
   ('a, 'v, 'r) pyfunc \<Rightarrow> 'a \<Rightarrow> (exn + 'r) option \<times> event list" where
  "synchronized ops lock_name policy coord orc f a =
     (case resolve_name ops lock_name f a of
        Inl e \<Rightarrow> (Some (Inl e), [])
      | Inr n \<Rightarrow>
          (case get_lock coord n of
             (Inl e, evs) \<Rightarrow> (Some (Inl e), evs)
           | (Inr l, evs) \<Rightarrow>
               (case acquire policy (available orc) of
                  None \<Rightarrow> (None, evs)
                | Some False \<Rightarrow>
                    (Some (Inl LockAcquireFailed),
                     evs @ [LockAcquire (name_of l) policy False,
                            Log (LockReleasedBy (name_of l) (f_name f) None)])
                | Some True \<Rightarrow>
                    (Some (call f a),
                     evs @ [LockAcquire (name_of l) policy True,
                            Log (LockAcquiredBy (name_of l) (f_name f) (t2 orc - t1 orc)),
                            Call (f_name f),
                            LockRelease (name_of l),
                            Log (LockReleasedBy (name_of l) (f_name f) (Some (t3 orc - t2 orc)))]))))"

text \<open>The lock names a history shows the backend was asked for, in order.\<close>

fun requested :: "event list \<Rightarrow> bytes list" where
  "requested [] = []"
| "requested (DriverGetLock b # es) = b # requested es"
| "requested (e # es) = requested es"

section \<open>Predicates on runs\<close>



text \<open>\<^verbatim>\<open>random.random()\<close> returns a value of the unit interval.\<close>

definition jitter_ok :: "label \<Rightarrow> bool" where
  "jitter_ok l = (case l of LoopStep orc \<Rightarrow> 0 \<le> jitter orc \<and> jitter orc \<le> 1 | StopStep x \<Rightarrow> True)"

text \<open>
  The backend of the specification fails with coordination errors only: every
  exception of the driver's \<^verbatim>\<open>heartbeat()\<close>, of \<^verbatim>\<open>get_coordinator\<close> and of the driver's
  \<^verbatim>\<open>start()\<close> is a \<^verbatim>\<open>ToozError\<close>.
\<close>

definition tooz_only :: "label \<Rightarrow> bool" where
  "tooz_only l =
     (case l of
        LoopStep orc \<Rightarrow>
          (case beat_result orc of None \<Rightarrow> True | Some e \<Rightarrow> is_ToozError e)
          \<and> (case get_coordinator_result (connect orc) of Inl e \<Rightarrow> is_ToozError e | Inr b \<Rightarrow> True)
          \<and> (case driver_start_result (connect orc) of None \<Rightarrow> True | Some e \<Rightarrow> is_ToozError e)
      | StopStep x \<Rightarrow> True)"

text \<open>A heartbeat thread that has not ended.\<close>

definition live :: "world \<Rightarrow> bool" where
  "live w = (case loop w of None \<Rightarrow> False | Some pc \<Rightarrow> \<not> is_Finished pc)"

text \<open>
  What holds of every world a schedule reaches from a freshly spawned loop, when the
  backend fails with coordination errors only: the event exists, the member id encodes,
  a live loop has its handle in \<^verbatim>\<open>self._ev\<close> and the caller of \<^verbatim>\<open>stop()\<close> is not past
  the wait for it, the driver is there when the heartbeat is about to be sent, and a
  loop that has ended returned normally with the flag set or the driver gone.
\<close>

definition loop_inv :: "world \<Rightarrow> bool" where
  "loop_inv w =
     (dead (obj w) \<noteq> None
      \<and> is_ascii (prefix (obj w) @ agent_id (obj w))
      \<and> (live w \<longrightarrow> ev (obj w) \<noteq> None \<and> caller w \<noteq> StopClear)
      \<and> (loop w = Some AtBeat \<longrightarrow> coordinator (obj w) \<noteq> None)
      \<and> (\<forall>r. loop w = Some (Finished r) \<longrightarrow>
            r = None \<and> (dead (obj w) = Some True \<or> coordinator (obj w) = None)))"

text \<open>
  What holds of every world a schedule reaches once \<^verbatim>\<open>stop()\<close> is called on a started
  coordinator whose handle \<^verbatim>\<open>self._ev\<close> was \<open>g\<close>: a live loop has its handle, the flag is
  set from the wait on, and past the wait the loop is not live (and has returned
  normally, when there was a handle).
\<close>

definition stop_inv :: "greenthread option \<Rightarrow> world \<Rightarrow> bool" where
  "stop_inv g w =
     ((live w \<longrightarrow> ev (obj w) \<noteq> None)
      \<and> (caller w = StopEntry \<longrightarrow> started (obj w))
      \<and> (caller w \<noteq> StopReturned \<longrightarrow> ev (obj w) = g)
      \<and> (caller w = StopJoin \<or> caller w = StopClear \<or> caller w = StopReturned \<longrightarrow>
            dead (obj w) = Some True)
      \<and> (caller w = StopClear \<or> caller w = StopReturned \<longrightarrow>
            \<not> live w \<and> (g \<noteq> None \<longrightarrow> loop w = Some (Finished None))))"

section \<open>Concrete inputs\<close>

text \<open>A configuration with the default intervals, and a coordinator as line 178 makes it.\<close>

definition cfg0 :: conf where
  "cfg0 = \<lparr> conf_backend_url = str ''file:///tmp'', conf_heartbeat = 1,
            conf_initial_reconnect_backoff = 1 / 10, conf_max_reconnect_backoff = 60 \<rparr>"

definition COORDINATOR :: Coordinator where
  "COORDINATOR = init (str ''6f1c'') None (str ''cinder-'')"

text \<open>A backend that connects, and one whose driver fails to start.\<close>

definition up :: connect_oracle where
  "up = \<lparr> get_coordinator_result = Inr True, driver_start_result = None \<rparr>"

definition down :: connect_oracle where
  "down = \<lparr> get_coordinator_result = Inr True, driver_start_result = Some ToozConnectionError \<rparr>"

definition env :: "exn option \<Rightarrow> connect_oracle \<Rightarrow> real \<Rightarrow> hb_oracle" where
  "env b c u = \<lparr> beat_result = b, connect = c, jitter = u \<rparr>"

text \<open>The coordinator after a \<^verbatim>\<open>start()\<close> that connects.\<close>

definition running :: world where
  "running = fst (start cfg0 up (boot COORDINATOR))"

text \<open>
  A small object model for examples: an object is its \<^verbatim>\<open>format\<close> text, its attributes
  and its items.
\<close>

datatype pyobj = PyObj pystr "(pystr \<times> pyobj) list" "(pystr \<times> pyobj) list"

fun obj_getattr :: "pyobj \<Rightarrow> pystr \<Rightarrow> exn + pyobj" where
  "obj_getattr (PyObj s attrs items) a =
     (case map_of attrs a of None \<Rightarrow> Inl AttributeError | Some v \<Rightarrow> Inr v)"

fun obj_getitem :: "pyobj \<Rightarrow> pystr \<Rightarrow> exn + pyobj" where
  "obj_getitem (PyObj s attrs items) k =
     (case map_of items k of None \<Rightarrow> Inl KeyError | Some v \<Rightarrow> Inr v)"

fun obj_format :: "pyobj \<Rightarrow> exn + pystr" where
  "obj_format (PyObj s attrs items) = Inr s"

definition obj_ops :: "pyobj pyops" where
  "obj_ops = \<lparr> py_getattr = obj_getattr, py_getitem = obj_getitem, py_format = obj_format,
               py_str = (\<lambda>s. PyObj s [] []) \<rparr>"

text \<open>
  The operation \<^verbatim>\<open>def transfer(account_id)\<close> called with one argument, and the template
  \<^verbatim>\<open>'lock-{account_id}'\<close> of the specification's end-to-end scenario. The call returns
  the value given, or raises.
\<close>

definition transfer :: "exn + nat \<Rightarrow> (pyobj, pyobj, nat) pyfunc" where
  "transfer outcome =
     \<lparr> f_name = str ''transfer'',
       getcallargs = (\<lambda>a. Inr [str ''account_id'' \<mapsto> a]),
       call = (\<lambda>a. outcome) \<rparr>"

definition lock_account :: "segment list" where
  "lock_account = [Literal (str ''lock-''), Field (str ''account_id'') []]"

definition clock :: "bool \<Rightarrow> lock_oracle" where
  "clock avail = \<lparr> available = avail, t1 = 0, t2 = 1, t3 = 3 \<rparr>"

text \<open>A second operation, \<^verbatim>\<open>def refund(acct)\<close>, guarded with the template \<^verbatim>\<open>'lock-{acct}'\<close>.\<close>

definition refund :: "(pyobj, pyobj, nat) pyfunc" where
  "refund =
     \<lparr> f_name = str ''refund'',
       getcallargs = (\<lambda>a. Inr [str ''acct'' \<mapsto> a]),
       call = (\<lambda>a. Inr 0) \<rparr>"

definition lock_acct :: "segment list" where
  "lock_acct = [Literal (str ''lock-''), Field (str ''acct'') []]"

text \<open>
  The example of the docstring (lines 215--217): \<^verbatim>\<open>def foo(self, vol, snap)\<close> guarded with
  \<^verbatim>\<open>'{f_name}-{vol.id}-{snap[name]}'\<close>, the arguments being the pair of \<^verbatim>\<open>vol\<close> and
  \<^verbatim>\<open>snap\<close>.
\<close>

definition foo :: "(pyobj \<times> pyobj, pyobj, nat) pyfunc" where
  "foo =
     \<lparr> f_name = str ''foo'',
       getcallargs = (\<lambda>(vol, snap). Inr [str ''vol'' \<mapsto> vol, str ''snap'' \<mapsto> snap]),
       call = (\<lambda>a. Inr 0) \<rparr>"

definition mylock :: "segment list" where
  "mylock =
     [Field (str ''f_name'') [], Literal (str ''-''),
      Field (str ''vol'') [Attr (str ''id'')], Literal (str ''-''),
      Field (str ''snap'') [Item (str ''name'')]]"

text \<open>
  Schedules from \<open>running\<close>, and the worlds they reach: the loop about to send its first
  heartbeat; the loop inside \<^verbatim>\<open>_reconnect\<close> after a connection error; and a run in which
  a heartbeat fails with a generic error, \<^verbatim>\<open>stop()\<close> is called and sets the flag, and the
  loop sees the flag and ends (\<open>sched_exit\<close>), after which \<^verbatim>\<open>stop()\<close> returns
  (\<open>sched_stop\<close>). In \<open>sched_crash\<close> the driver's \<^verbatim>\<open>heartbeat()\<close> raises an exception
  that is not a \<^verbatim>\<open>ToozError\<close>.
\<close>

definition sched_beat :: "label list" where
  "sched_beat = [LoopStep (env None up 0)]"

definition sched_reconnect :: "label list" where
  "sched_reconnect = [LoopStep (env None up 0), LoopStep (env (Some ToozConnectionError) up 0)]"

definition sched_crash :: "label list" where
  "sched_crash =
     [LoopStep (env None up 0), LoopStep (env (Some (OtherError (str ''socket error''))) up 0)]"

definition sched_exit :: "label list" where
  "sched_exit =
     [LoopStep (env None up 0), LoopStep (env (Some ToozError) up 0), LoopStep (env None up 0),
      StopStep None, StopStep None, StopStep None,
      LoopStep (env None up 0)]"

definition sched_stop :: "label list" where
  "sched_stop = sched_exit @ [StopStep None, StopStep None]"

definition beating :: world where
  "beating = the (exec cfg0 sched_beat running)"

definition reconnecting :: world where
  "reconnecting = the (exec cfg0 sched_reconnect running)"

definition stopped :: world where
  "stopped = the (exec cfg0 sched_stop running)"

section \<open>Evaluating the model\<close>

lemmas fixture_defs = cfg0_def COORDINATOR_def up_def down_def env_def running_def init_def
  boot_def str_def obj_ops_def transfer_def lock_account_def clock_def refund_def lock_acct_def
  foo_def mylock_def

lemmas model_defs = private_start_def encode_ascii_def is_ascii_def start_def step_def
  next_backoff_def uniform_def get_lock_def resolve_name_def format_field_def positional_def

lemmas run_defs = sched_beat_def sched_reconnect_def sched_crash_def sched_exit_def sched_stop_def
  beating_def
  reconnecting_def stopped_def jitter_ok_def tooz_only_def live_def

section \<open>Lock creation\<close>

text \<open>
  Claim C10. When the prefix followed by the name holds a code point outside ASCII,
  \<open>get_lock\<close> raises \<^verbatim>\<open>UnicodeEncodeError\<close>, not \<^verbatim>\<open>LockCreationFailed\<close>, whether or not
  a backend driver is present, and no call is made on the backend.
\<close>

theorem get_lock_non_ascii:
  assumes "\<not> is_ascii (prefix self @ name)"
  shows "get_lock self name = (Inl UnicodeEncodeError, [])"
  using assms by (simp add: get_lock_def encode_ascii_def)

theorem get_lock_non_ascii_witness:
  "get_lock COORDINATOR [233] = (Inl UnicodeEncodeError, [])
   \<and> get_lock (obj running) [233] = (Inl UnicodeEncodeError, [])
   \<and> coordinator COORDINATOR = None
   \<and> coordinator (obj running)
       = Some \<lparr> member_id = Bytes (str ''cinder-6f1c''), requires_beating = True \<rparr>"
proof -
  have h: "\<not> is_ascii (prefix COORDINATOR @ [233])"
    by (simp add: fixture_defs is_ascii_def)
  have h': "\<not> is_ascii (prefix (obj running) @ [233])"
    by (simp add: fixture_defs model_defs)
  show ?thesis
    using get_lock_non_ascii [OF h] get_lock_non_ascii [OF h']
    by (simp add: fixture_defs model_defs)
qed

text \<open>
  Claim C3, as stated, fails for a name outside ASCII: on a coordinator with no backend
  driver, \<open>get_lock\<close> of the one-character name U+00E9 does not raise
  \<^verbatim>\<open>LockCreationFailed\<close>; it raises \<^verbatim>\<open>UnicodeEncodeError\<close>.
\<close>

theorem get_lock_disconnected_counterexample:
  "coordinator COORDINATOR = None
   \<and> fst (get_lock COORDINATOR [233]) \<noteq> Inl LockCreationFailed
   \<and> fst (get_lock COORDINATOR [233]) = Inl UnicodeEncodeError"
  by (simp add: fixture_defs model_defs)

text \<open>
  Claim C3, amended. For every name such that the prefix followed by the name is ASCII,
  the fully-qualified name has an encoding \<open>b\<close>, and: with no backend driver
  \<open>get_lock\<close> raises \<^verbatim>\<open>LockCreationFailed\<close> and calls nothing; with a driver it returns
  the lock that driver gives for \<open>b\<close>, after exactly that one call on the driver.
\<close>

theorem get_lock_ascii:
  assumes "is_ascii (prefix self @ name)"
  shows "\<exists>b. encode_ascii (prefix self @ name) = Inr b
           \<and> b = Bytes (prefix self @ name)
           \<and> get_lock self name =
               (case coordinator self of
                  None \<Rightarrow> (Inl LockCreationFailed, [])
                | Some d \<Rightarrow> (Inr (Lock d b), [DriverGetLock b]))"
  using assms by (simp add: get_lock_def encode_ascii_def split: option.splits)

theorem get_lock_ascii_witness:
  "get_lock COORDINATOR (str ''x'') = (Inl LockCreationFailed, [])
   \<and> get_lock (obj running) (str ''x'')
       = (Inr (Lock \<lparr> member_id = Bytes (str ''cinder-6f1c''), requires_beating = True \<rparr>
                (Bytes (str ''cinder-x''))),
          [DriverGetLock (Bytes (str ''cinder-x''))])"
proof -
  have h: "is_ascii (prefix COORDINATOR @ str ''x'')"
    by (simp add: fixture_defs is_ascii_def)
  have h': "is_ascii (prefix (obj running) @ str ''x'')"
    by (simp add: fixture_defs model_defs)
  show ?thesis
    using get_lock_ascii [OF h] get_lock_ascii [OF h']
    by (simp add: fixture_defs model_defs)
qed

section \<open>The guarded call\<close>

text \<open>
  Claim C1. When the lock name resolves, the coordinator gives a lock for it and the
  acquisition succeeds, the wrapper returns: it has called the wrapped operation once,
  released the lock after that call and before returning, and its outcome is the
  operation's own, the value returned or the exception raised, unchanged.
\<close>

theorem synchronized_acquired:
  assumes "resolve_name ops lock_name f a = Inr n"
    and "get_lock coord n = (Inr l, evs)"
    and "acquire policy (available orc) = Some True"
  shows "synchronized ops lock_name policy coord orc f a =
           (Some (call f a),
            evs @ [LockAcquire (name_of l) policy True,
                   Log (LockAcquiredBy (name_of l) (f_name f) (t2 orc - t1 orc)),
                   Call (f_name f),
                   LockRelease (name_of l),
                   Log (LockReleasedBy (name_of l) (f_name f) (Some (t3 orc - t2 orc)))])"
  using assms by (simp add: synchronized_def)

theorem synchronized_acquired_witness:
  "synchronized obj_ops lock_account NoBlock (obj running) (clock True)
       (transfer (Inl (OtherError (str ''boom'')))) (PyObj (str ''1'') [] [])
   = (Some (Inl (OtherError (str ''boom''))),
      [DriverGetLock (Bytes (str ''cinder-lock-1'')),
       LockAcquire (Bytes (str ''cinder-lock-1'')) NoBlock True,
       Log (LockAcquiredBy (Bytes (str ''cinder-lock-1'')) (str ''transfer'') 1),
       Call (str ''transfer''),
       LockRelease (Bytes (str ''cinder-lock-1'')),
       Log (LockReleasedBy (Bytes (str ''cinder-lock-1'')) (str ''transfer'') (Some 2))])"
proof -
  have r: "resolve_name obj_ops lock_account (transfer (Inl (OtherError (str ''boom''))))
             (PyObj (str ''1'') [] []) = Inr (str ''lock-1'')"
    by (simp add: fixture_defs model_defs)
  have g: "get_lock (obj running) (str ''lock-1'')
             = (Inr (Lock \<lparr> member_id = Bytes (str ''cinder-6f1c''), requires_beating = True \<rparr>
                      (Bytes (str ''cinder-lock-1''))),
                [DriverGetLock (Bytes (str ''cinder-lock-1''))])"
    by (simp add: fixture_defs model_defs)
  have q: "acquire NoBlock (available (clock True)) = Some True"
    by (simp add: clock_def)
  show ?thesis
    using synchronized_acquired [OF r g q] by (simp add: transfer_def clock_def)
qed

text \<open>
  Claim C2. Under the fail-immediately policy or a timeout, when the lock name resolves,
  the coordinator gives a lock for it and the acquisition does not succeed, the wrapper
  raises \<^verbatim>\<open>LockAcquireFailed\<close> and the wrapped operation is never called.
\<close>

theorem synchronized_not_acquired:
  assumes "resolve_name ops lock_name f a = Inr n"
    and "get_lock coord n = (Inr l, evs)"
    and "policy = NoBlock \<or> (\<exists>seconds. policy = Timeout seconds)"
    and "\<not> available orc"
  shows "synchronized ops lock_name policy coord orc f a =
           (Some (Inl LockAcquireFailed),
            evs @ [LockAcquire (name_of l) policy False,
                   Log (LockReleasedBy (name_of l) (f_name f) None)])
         \<and> Call (f_name f) \<notin> set (snd (synchronized ops lock_name policy coord orc f a))"
proof -
  have a: "acquire policy (available orc) = Some False"
    using assms(3,4) by auto
  have e: "Call (f_name f) \<notin> set evs"
    using assms(2) by (auto simp: get_lock_def split: sum.splits option.splits)
  show ?thesis
    using assms(1,2) a e by (simp add: synchronized_def)
qed

theorem synchronized_not_acquired_witness:
  "synchronized obj_ops lock_account NoBlock (obj running) (clock False)
       (transfer (Inr 7)) (PyObj (str ''1'') [] [])
   = (Some (Inl LockAcquireFailed),
      [DriverGetLock (Bytes (str ''cinder-lock-1'')),
       LockAcquire (Bytes (str ''cinder-lock-1'')) NoBlock False,
       Log (LockReleasedBy (Bytes (str ''cinder-lock-1'')) (str ''transfer'') None)])
   \<and> Call (str ''transfer'') \<notin> set (snd (synchronized obj_ops lock_account NoBlock (obj running)
         (clock False) (transfer (Inr 7)) (PyObj (str ''1'') [] [])))"
proof -
  have r: "resolve_name obj_ops lock_account (transfer (Inr 7))
             (PyObj (str ''1'') [] []) = Inr (str ''lock-1'')"
    by (simp add: fixture_defs model_defs)
  have g: "get_lock (obj running) (str ''lock-1'')
             = (Inr (Lock \<lparr> member_id = Bytes (str ''cinder-6f1c''), requires_beating = True \<rparr>
                      (Bytes (str ''cinder-lock-1''))),
                [DriverGetLock (Bytes (str ''cinder-lock-1''))])"
    by (simp add: fixture_defs model_defs)
  have p: "NoBlock = NoBlock \<or> (\<exists>seconds. NoBlock = Timeout seconds)"
    by simp
  have q: "\<not> available (clock False)"
    by (simp add: clock_def)
  show ?thesis
    using synchronized_not_acquired [OF r g p q] by (simp add: transfer_def)
qed

text \<open>The docstring's example resolves as the docstring says.\<close>

lemma resolve_name_docstring_example:
  "resolve_name obj_ops mylock foo
     (PyObj (str ''<vol>'') [(str ''id'', PyObj (str ''7'') [] [])] [],
      PyObj (str ''<snap>'') [] [(str ''name'', PyObj (str ''s1'') [] [])])
   = Inr (str ''foo-7-s1'')"
  by (simp add: fixture_defs model_defs)

lemma requested_append: "requested (xs @ ys) = requested xs @ requested ys"
  by (induction xs rule: requested.induct) simp_all

lemma requested_synchronized:
  assumes "resolve_name ops lock_name f a = Inr n"
  shows "requested (snd (synchronized ops lock_name policy coord orc f a)) = requested (snd (get_lock coord n))"
  using assms
  by (auto simp: synchronized_def requested_append split: prod.splits sum.splits option.splits bool.splits)

text \<open>
  Claim C9. Let \<open>n\<close> be the template formatted with the call's bindings of parameter
  names to values, to which \<^verbatim>\<open>f_name\<close> is added with the operation's name. On a
  connected coordinator the one lock name the wrapper asks the backend for is the ASCII
  encoding of the prefix followed by \<open>n\<close>. Any other guarded call on that coordinator
  (another operation, template, policy or argument type) that resolves to the same \<open>n\<close>
  asks for the same names: the lock is keyed by the resolved name alone.
\<close>

theorem lock_keyed_by_resolved_name:
  assumes "getcallargs f a = Inr call_args"
    and "format ops lock_name (call_args(str ''f_name'' \<mapsto> py_str ops (f_name f))) = Inr n"
  shows "(\<forall>d b. coordinator coord = Some d \<and> encode_ascii (prefix coord @ n) = Inr b \<longrightarrow>
            requested (snd (synchronized ops lock_name policy coord orc f a)) = [b])
       \<and> (resolve_name ops' lock_name' g a' = Inr n \<longrightarrow>
            requested (snd (synchronized ops' lock_name' policy' coord orc' g a'))
              = requested (snd (synchronized ops lock_name policy coord orc f a)))"
proof -
  have r: "resolve_name ops lock_name f a = Inr n"
    using assms by (simp add: resolve_name_def)
  have one: "requested (snd (synchronized ops lock_name policy coord orc f a)) = [b]"
    if "coordinator coord = Some d" "encode_ascii (prefix coord @ n) = Inr b" for d b
    using that by (simp add: requested_synchronized [OF r] get_lock_def)
  have two: "requested (snd (synchronized ops' lock_name' policy' coord orc' g a'))
              = requested (snd (synchronized ops lock_name policy coord orc f a))"
    if "resolve_name ops' lock_name' g a' = Inr n"
    by (simp add: requested_synchronized [OF r] requested_synchronized [OF that])
  show ?thesis
    using one two by blast
qed

theorem lock_keyed_by_resolved_name_witness:
  "requested (snd (synchronized obj_ops lock_account NoBlock (obj running) (clock True)
       (transfer (Inr 7)) (PyObj (str ''1'') [] []))) = [Bytes (str ''cinder-lock-1'')]
   \<and> requested (snd (synchronized obj_ops lock_acct Block (obj running) (clock False)
       refund (PyObj (str ''1'') [] []))) = [Bytes (str ''cinder-lock-1'')]"
proof -
  have a: "getcallargs (transfer (Inr 7)) (PyObj (str ''1'') [] [])
             = Inr [str ''account_id'' \<mapsto> PyObj (str ''1'') [] []]"
    by (simp add: transfer_def)
  have f: "format obj_ops lock_account
             ([str ''account_id'' \<mapsto> PyObj (str ''1'') [] []]
                (str ''f_name'' \<mapsto> py_str obj_ops (f_name (transfer (Inr 7)))))
             = Inr (str ''lock-1'')"
    by (simp add: fixture_defs model_defs)
  have c: "coordinator (obj running)
             = Some \<lparr> member_id = Bytes (str ''cinder-6f1c''), requires_beating = True \<rparr>
           \<and> encode_ascii (prefix (obj running) @ str ''lock-1'') = Inr (Bytes (str ''cinder-lock-1''))"
    by (simp add: fixture_defs model_defs)
  have r: "resolve_name obj_ops lock_acct refund (PyObj (str ''1'') [] []) = Inr (str ''lock-1'')"
    by (simp add: fixture_defs model_defs)
  show ?thesis
    using lock_keyed_by_resolved_name [OF a f, of "obj running" NoBlock "clock True"
        obj_ops lock_acct refund "PyObj (str ''1'') [] []" Block "clock False"] c r
    by simp
qed

section \<open>Starting and the connection invariant\<close>

text \<open>
  The invariant holds of a new coordinator. \<^verbatim>\<open>start()\<close> keeps it when the driver's
  \<^verbatim>\<open>start()\<close> returns and when \<^verbatim>\<open>get_coordinator\<close> raises; every step of \<^verbatim>\<open>stop()\<close> keeps
  it. A \<^verbatim>\<open>start()\<close> that returns with a driver that requires beating leaves the world as
  the theorems on the loop below take it.
\<close>

lemma init_connection_invariant: "connection_invariant (init uuid4 agent pre)"
  by (simp add: connection_invariant_def init_def)

lemma start_connection_invariant:
  assumes "connection_invariant (obj w)"
    and "driver_start_result orc = None \<or> (\<exists>e. get_coordinator_result orc = Inl e)"
  shows "connection_invariant (obj (fst (start cfg orc w)))"
  using assms
  by (auto simp: connection_invariant_def start_def private_start_def
           split: sum.splits option.splits)

lemma stop_step_connection_invariant:
  assumes "connection_invariant (obj w)" and "stop_step orc w = Some w'"
  shows "connection_invariant (obj w')"
  using assms
  by (cases "caller w")
     (auto simp: connection_invariant_def split: option.splits hb_pc.splits if_splits)

lemma start_spawns_loop:
  assumes "\<not> started (obj w)"
    and "start cfg orc w = (w', None)"
    and "get_coordinator_result orc = Inr True"
  shows "loop w' = Some AtWhile \<and> ev (obj w') = Some GreenThread \<and> dead (obj w') = Some False
       \<and> is_ascii (prefix (obj w') @ agent_id (obj w')) \<and> started (obj w')
       \<and> caller w' = caller w"
  using assms
  by (auto simp: start_def private_start_def encode_ascii_def
           split: sum.splits option.splits if_splits)

text \<open>
  Claim C7 fails on the code. The new coordinator satisfies the invariant. A \<^verbatim>\<open>start()\<close>
  during which the driver's \<^verbatim>\<open>start()\<close> raises \<^verbatim>\<open>ToozConnectionError\<close> raises it again
  and breaks the invariant: \<^verbatim>\<open>started\<close> stays false while \<^verbatim>\<open>self.coordinator\<close> holds the
  driver that never started; \<open>get_lock\<close> then hands out a lock of that driver instead of
  raising \<^verbatim>\<open>LockCreationFailed\<close>.
\<close>

theorem start_failure_breaks_invariant:
  "connection_invariant COORDINATOR
   \<and> snd (start cfg0 down (boot COORDINATOR)) = Some ToozConnectionError
   \<and> \<not> connection_invariant (obj (fst (start cfg0 down (boot COORDINATOR))))
   \<and> started (obj (fst (start cfg0 down (boot COORDINATOR)))) = False
   \<and> coordinator (obj (fst (start cfg0 down (boot COORDINATOR))))
       = Some \<lparr> member_id = Bytes (str ''cinder-6f1c''), requires_beating = True \<rparr>
   \<and> fst (get_lock (obj (fst (start cfg0 down (boot COORDINATOR)))) (str ''x''))
       = Inr (Lock \<lparr> member_id = Bytes (str ''cinder-6f1c''), requires_beating = True \<rparr>
                (Bytes (str ''cinder-x'')))"
  by (simp add: fixture_defs model_defs connection_invariant_def)

section \<open>Reconnection\<close>






text \<open>
  Claim C5 fails on the code. The heartbeat fails with a connection error, the first
  reconnection attempt fails, and \<^verbatim>\<open>stop()\<close> sets the shutdown flag while the loop is in
  its backoff wait. The wait returns, and the loop makes a second connection attempt
  (\<^verbatim>\<open>get_coordinator\<close> and the driver's \<^verbatim>\<open>start()\<close>, after \<open>DeadSet\<close> in the history), and
  on its failure goes on to a second backoff wait. The history is shown from the first
  heartbeat on.
\<close>

theorem reconnect_ignores_shutdown:
  "map_option (\<lambda>w. (dead (obj w), loop w, drop 4 (trace w)))
     (exec cfg0
        [LoopStep (env None up 0),
         LoopStep (env (Some ToozConnectionError) up 0),
         LoopStep (env None down (1 / 2)),
         StopStep None, StopStep None, StopStep None,
         LoopStep (env None down (1 / 2)),
         LoopStep (env None down (1 / 2))]
        running)
   = Some (Some True, Some (AtBackoffWait 2 (7 / 20)),
       [DriverHeartbeat, Log HeartbeatConnectionError, Log Reconnecting,
        GetCoordinator (str ''file:///tmp'') (Bytes (str ''cinder-6f1c'')), DriverStart,
        Log (ReconnectFailed 1 (1 / 5)),
        DriverStop, DeadSet, DeadWait (1 / 5),
        GetCoordinator (str ''file:///tmp'') (Bytes (str ''cinder-6f1c'')), DriverStart,
        Log (ReconnectFailed 2 (7 / 20))])"
  by (simp add: fixture_defs model_defs)


section \<open>The heartbeat loop\<close>

lemma hb_step_frame:
  assumes "hb_step cfg orc pc self = (pc', self', evs)"
  shows "ev self' = ev self \<and> started self' = started self \<and> dead self' = dead self
       \<and> prefix self' = prefix self \<and> agent_id self' = agent_id self"
  using assms
  by (cases pc) (auto simp: private_start_def split: option.splits sum.splits if_splits prod.splits)

lemma stop_step_loop_inv:
  assumes "loop_inv w" and "stop_step orc w = Some w'"
  shows "loop_inv w'"
  using assms
  by (cases "caller w")
     (auto simp: loop_inv_def live_def split: option.splits hb_pc.splits if_splits)

lemma loop_step_loop_inv:
  assumes "loop_inv w" and "tooz_only (LoopStep orc)" and "step cfg (LoopStep orc) w = Some w'"
  shows "loop_inv w'"
proof -
  obtain pc where pc: "loop w = Some pc" "\<not> is_Finished pc"
    using assms(3) by (auto simp: step_def split: option.splits if_splits)
  obtain pc' self' evs where h: "hb_step cfg orc pc (obj w) = (pc', self', evs)"
    by (cases "hb_step cfg orc pc (obj w)") auto
  have w': "w' = w\<lparr> obj := self', loop := Some pc', trace := trace w @ evs \<rparr>"
    using assms(3) pc h by (simp add: step_def)
  have fr: "ev self' = ev (obj w)" "dead self' = dead (obj w)"
    "prefix self' = prefix (obj w)" "agent_id self' = agent_id (obj w)"
    using hb_step_frame [OF h] by simp_all
  have t: "(case beat_result orc of None \<Rightarrow> True | Some e \<Rightarrow> is_ToozError e)"
    "(case get_coordinator_result (connect orc) of Inl e \<Rightarrow> is_ToozError e | Inr b \<Rightarrow> True)"
    "(case driver_start_result (connect orc) of None \<Rightarrow> True | Some e \<Rightarrow> is_ToozError e)"
    using assms(2) by (simp_all add: tooz_only_def)
  have nf: "\<not> is_Finished pc' \<or> (pc' = Finished None \<and> (dead (obj w) = Some True \<or> coordinator self' = None))"
    using h pc assms(1) t
    by (cases pc)
       (auto simp: loop_inv_def private_start_def encode_ascii_def
             split: option.splits sum.splits if_splits)
  have beat: "pc' = AtBeat \<longrightarrow> coordinator self' \<noteq> None"
    using h pc
    by (cases pc)
       (auto simp: private_start_def split: option.splits sum.splits if_splits prod.splits)
  have lv: "live w"
    using pc by (simp add: live_def)
  show ?thesis
    using assms(1) lv nf beat fr
    by (cases pc') (auto simp: w' loop_inv_def live_def)
qed

lemma exec_loop_inv:
  "list_all tooz_only ls \<Longrightarrow> loop_inv w \<Longrightarrow> exec cfg ls w = Some w' \<Longrightarrow> loop_inv w'"
proof (induction ls arbitrary: w)
  case Nil
  then show ?case by simp
next
  case (Cons l ls)
  from Cons.prems(3) obtain w1 where w1: "step cfg l w = Some w1" "exec cfg ls w1 = Some w'"
    by (auto split: option.splits)
  have "loop_inv w1"
  proof (cases l)
    case (LoopStep orc)
    then show ?thesis
      using loop_step_loop_inv [OF Cons.prems(2)] Cons.prems(1) w1(1) by auto
  next
    case (StopStep x)
    then show ?thesis
      using stop_step_loop_inv [OF Cons.prems(2)] w1(1) by (simp add: step_def)
  qed
  then show ?case
    using Cons.IH w1(2) Cons.prems(1) by simp
qed

text \<open>
  Claim C6, as stated, fails: the \<^verbatim>\<open>except\<close> clauses of \<^verbatim>\<open>heartbeat\<close>, \<^verbatim>\<open>_heartbeat\<close> and
  \<^verbatim>\<open>_reconnect\<close> (lines 135, 151--157, 169) catch \<^verbatim>\<open>ToozError\<close> and its subclasses only.
  On the started coordinator, a driver whose \<^verbatim>\<open>heartbeat()\<close> raises any other exception
  ends the loop with that exception, while the shutdown flag is not set, the driver is
  still in \<^verbatim>\<open>self.coordinator\<close> and \<^verbatim>\<open>stop()\<close> has not been called. The schedule is not one
  of a backend that fails with coordination errors only.
\<close>

theorem heartbeat_loop_exits_counterexample:
  "loop running = Some AtWhile
   \<and> map_option (\<lambda>w. (loop w, dead (obj w), coordinator (obj w), caller w))
        (exec cfg0 sched_crash running)
       = Some (Some (Finished (Some (OtherError (str ''socket error'')))),
               Some False,
               Some \<lparr> member_id = Bytes (str ''cinder-6f1c''), requires_beating = True \<rparr>,
               StopEntry)
   \<and> \<not> list_all tooz_only sched_crash"
  by (simp add: run_defs fixture_defs model_defs)

text \<open>
  Claim C6, amended. Let the loop be freshly spawned by a \<^verbatim>\<open>start()\<close> (handle in
  \<^verbatim>\<open>self._ev\<close>, event created, member id encodable, \<^verbatim>\<open>stop()\<close> not yet called) and let the
  backend fail with coordination errors only: every exception of the driver's
  \<^verbatim>\<open>heartbeat()\<close>, of \<^verbatim>\<open>get_coordinator\<close> and of the driver's \<^verbatim>\<open>start()\<close> is a
  \<^verbatim>\<open>ToozError\<close>. In every world that any schedule reaches: if the loop has ended, it
  returned normally and the shutdown flag is set or the driver is gone; a heartbeat that
  fails with a generic \<^verbatim>\<open>ToozError\<close> is logged, the loop goes on to its wait and from
  there back to the head of the loop; a heartbeat that fails with
  \<^verbatim>\<open>ToozConnectionError\<close> takes the loop into the first attempt of \<^verbatim>\<open>_reconnect\<close>.
\<close>

theorem heartbeat_loop_exits_only_on_shutdown:
  assumes "loop w0 = Some AtWhile"
    and "ev (obj w0) = Some GreenThread"
    and "caller w0 = StopEntry"
    and "dead (obj w0) = Some flag"
    and "is_ascii (prefix (obj w0) @ agent_id (obj w0))"
    and "list_all tooz_only ls"
    and "exec cfg ls w0 = Some w"
  shows "(\<forall>r. loop w = Some (Finished r) \<longrightarrow>
            r = None \<and> (dead (obj w) = Some True \<or> coordinator (obj w) = None))
       \<and> (\<forall>e. loop w = Some AtBeat \<and> is_ToozError e \<and> e \<noteq> ToozConnectionError \<longrightarrow>
            step cfg (LoopStep (orc\<lparr> beat_result := Some e \<rparr>)) w
              = Some (w\<lparr> loop := Some AtBeatWait,
                         trace := trace w @ [DriverHeartbeat, Log HeartbeatError] \<rparr>)
            \<and> step cfg (LoopStep orc')
                 (w\<lparr> loop := Some AtBeatWait,
                     trace := trace w @ [DriverHeartbeat, Log HeartbeatError] \<rparr>)
              = Some (w\<lparr> loop := Some AtWhile,
                         trace := trace w @ [DriverHeartbeat, Log HeartbeatError,
                                             DeadWait (conf_heartbeat cfg)] \<rparr>))
       \<and> (loop w = Some AtBeat \<longrightarrow>
            step cfg (LoopStep (orc\<lparr> beat_result := Some ToozConnectionError \<rparr>)) w
              = Some (w\<lparr> loop := Some (AtStart 1 (conf_initial_reconnect_backoff cfg)),
                         trace := trace w @ [DriverHeartbeat, Log HeartbeatConnectionError,
                                             Log Reconnecting] \<rparr>))"
proof -
  have "loop_inv w0"
    using assms(1-5) by (simp add: loop_inv_def live_def)
  then have inv: "loop_inv w"
    using exec_loop_inv [OF assms(6) _ assms(7)] by simp
  have fin: "\<forall>r. loop w = Some (Finished r) \<longrightarrow>
            r = None \<and> (dead (obj w) = Some True \<or> coordinator (obj w) = None)"
    using inv by (simp add: loop_inv_def)
  have d: "\<exists>f. dead (obj w) = Some f"
    using inv by (auto simp: loop_inv_def)
  have c: "loop w = Some AtBeat \<Longrightarrow> \<exists>d. coordinator (obj w) = Some d"
    using inv by (auto simp: loop_inv_def)
  have generic: "step cfg (LoopStep (orc\<lparr> beat_result := Some e \<rparr>)) w
              = Some (w\<lparr> loop := Some AtBeatWait,
                         trace := trace w @ [DriverHeartbeat, Log HeartbeatError] \<rparr>)
            \<and> step cfg (LoopStep orc')
                 (w\<lparr> loop := Some AtBeatWait,
                     trace := trace w @ [DriverHeartbeat, Log HeartbeatError] \<rparr>)
              = Some (w\<lparr> loop := Some AtWhile,
                         trace := trace w @ [DriverHeartbeat, Log HeartbeatError,
                                             DeadWait (conf_heartbeat cfg)] \<rparr>)"
    if "loop w = Some AtBeat" "is_ToozError e" "e \<noteq> ToozConnectionError" for e
    using that c d by (auto simp: step_def)
  have conn: "step cfg (LoopStep (orc\<lparr> beat_result := Some ToozConnectionError \<rparr>)) w
              = Some (w\<lparr> loop := Some (AtStart 1 (conf_initial_reconnect_backoff cfg)),
                         trace := trace w @ [DriverHeartbeat, Log HeartbeatConnectionError,
                                             Log Reconnecting] \<rparr>)"
    if "loop w = Some AtBeat"
    using that c by (auto simp: step_def)
  show ?thesis
    using fin generic conn by blast
qed

theorem heartbeat_loop_exits_only_on_shutdown_witness:
  "map_option (\<lambda>w. (loop w, dead (obj w))) (exec cfg0 (sched_exit) running)
     = Some (Some (Finished None), Some True)
   \<and> loop beating = Some AtBeat
   \<and> map_option loop (step cfg0 (LoopStep (env (Some ToozError) up 0)) beating)
       = Some (Some AtBeatWait)
   \<and> map_option loop (step cfg0 (LoopStep (env (Some ToozConnectionError) up 0)) beating)
       = Some (Some (AtStart 1 (1 / 10)))"
proof -
  have w0: "loop running = Some AtWhile" "ev (obj running) = Some GreenThread"
    "caller running = StopEntry" "dead (obj running) = Some False"
    "is_ascii (prefix (obj running) @ agent_id (obj running))"
    by (simp_all add: fixture_defs model_defs)
  have t1: "list_all tooz_only (sched_exit)"
    and t2: "list_all tooz_only sched_beat"
    by (simp_all add: run_defs env_def up_def)
  obtain w where ex1: "exec cfg0 (sched_exit) running = Some w"
    and w: "loop w = Some (Finished None)"
    by (simp add: run_defs fixture_defs model_defs)
  have ex2: "exec cfg0 sched_beat running = Some beating"
    and pc: "loop beating = Some AtBeat"
    by (simp_all add: run_defs fixture_defs model_defs)
  have e: "is_ToozError ToozError \<and> ToozError \<noteq> ToozConnectionError"
    by simp
  have o: "env (Some ToozError) up 0 = (env None up 0)\<lparr> beat_result := Some ToozError \<rparr>"
    "env (Some ToozConnectionError) up 0 = (env None up 0)\<lparr> beat_result := Some ToozConnectionError \<rparr>"
    by (simp_all add: env_def)
  have "dead (obj w) = Some True \<or> coordinator (obj w) = None"
    using heartbeat_loop_exits_only_on_shutdown [OF w0 t1 ex1, of "env None up 0" "env None up 0"] w
    by simp
  moreover have "coordinator (obj w) \<noteq> None"
    using ex1 by (auto simp: run_defs fixture_defs model_defs)
  ultimately have "dead (obj w) = Some True"
    by simp
  then show ?thesis
    using heartbeat_loop_exits_only_on_shutdown [OF w0 t2 ex2, of "env None up 0" "env None up 0"]
      pc e o ex1 w
    by (simp add: cfg0_def)
qed

section \<open>Stopping\<close>

lemma stop_step_stop_inv:
  assumes "stop_inv g w" and "stop_step orc w = Some w'"
  shows "stop_inv g w'"
  using assms
  by (cases "caller w")
     (auto simp: stop_inv_def live_def split: option.splits hb_pc.splits if_splits)

lemma loop_step_stop_inv:
  assumes "stop_inv g w" and "step cfg (LoopStep orc) w = Some w'"
  shows "stop_inv g w'"
proof -
  obtain pc where pc: "loop w = Some pc" "\<not> is_Finished pc"
    using assms(2) by (auto simp: step_def split: option.splits if_splits)
  obtain pc' self' evs where h: "hb_step cfg orc pc (obj w) = (pc', self', evs)"
    by (cases "hb_step cfg orc pc (obj w)") auto
  have w': "w' = w\<lparr> obj := self', loop := Some pc', trace := trace w @ evs \<rparr>"
    using assms(2) pc h by (simp add: step_def)
  have fr: "ev self' = ev (obj w)" "dead self' = dead (obj w)" "started self' = started (obj w)"
    using hb_step_frame [OF h] by simp_all
  have lv: "live w"
    using pc by (simp add: live_def)
  show ?thesis
    using assms(1) lv fr by (auto simp: w' stop_inv_def live_def)
qed

lemma exec_stop_inv:
  "stop_inv g w \<Longrightarrow> exec cfg ls w = Some w' \<Longrightarrow> stop_inv g w'"
proof (induction ls arbitrary: w)
  case Nil
  then show ?case by simp
next
  case (Cons l ls)
  from Cons.prems(2) obtain w1 where w1: "step cfg l w = Some w1" "exec cfg ls w1 = Some w'"
    by (auto split: option.splits)
  have "stop_inv g w1"
  proof (cases l)
    case (LoopStep orc)
    then show ?thesis
      using loop_step_stop_inv [OF Cons.prems(1)] w1(1) by auto
  next
    case (StopStep x)
    then show ?thesis
      using stop_step_stop_inv [OF Cons.prems(1)] w1(1) by (simp add: step_def)
  qed
  then show ?case
    using Cons.IH w1(2) by simp
qed

lemma quiescent:
  assumes "caller w = StopReturned" and "\<not> live w"
  shows "exec cfg ls w = Some w' \<Longrightarrow> w' = w"
proof (cases ls)
  case Nil
  assume "exec cfg ls w = Some w'"
  then show ?thesis using Nil by simp
next
  case (Cons l rest)
  have "step cfg l w = None"
    using assms by (cases l) (auto simp: step_def live_def split: option.splits)
  moreover assume "exec cfg ls w = Some w'"
  ultimately show ?thesis using Cons by simp
qed

lemma start_tracks_loop:
  assumes "live w \<longrightarrow> ev (obj w) \<noteq> None"
  shows "live (fst (start cfg orc w)) \<longrightarrow> ev (obj (fst (start cfg orc w))) \<noteq> None"
  using assms
  by (auto simp: start_def private_start_def live_def
           split: prod.splits option.splits sum.splits if_splits)

text \<open>
  Claim C8. Let \<^verbatim>\<open>stop()\<close> be called on a started coordinator whose live loop, if any,
  has its handle in \<^verbatim>\<open>self._ev\<close> (as \<open>start_tracks_loop\<close> shows \<^verbatim>\<open>start()\<close> leaves it).
  In every world that any schedule reaches in which \<^verbatim>\<open>stop()\<close> has returned: the loop is
  not live, the shutdown flag is set, the loop (when there was a handle) has returned
  from its \<^verbatim>\<open>while\<close>, and no schedule goes on from there, so the history, and with it
  the number of heartbeats sent, stays as it is.
\<close>

theorem stop_returns_after_loop_exit:
  assumes "started (obj w0)"
    and "caller w0 = StopEntry"
    and "live w0 \<longrightarrow> ev (obj w0) \<noteq> None"
    and "exec cfg ls w0 = Some w"
    and "caller w = StopReturned"
  shows "\<not> live w
       \<and> dead (obj w) = Some True
       \<and> (ev (obj w0) \<noteq> None \<longrightarrow> loop w = Some (Finished None))
       \<and> (\<forall>ls' w'. exec cfg ls' w = Some w' \<longrightarrow>
            trace w' = trace w
            \<and> count_list (trace w') DriverHeartbeat = count_list (trace w) DriverHeartbeat)"
proof -
  have "stop_inv (ev (obj w0)) w0"
    using assms(1-3) by (simp add: stop_inv_def)
  then have inv: "stop_inv (ev (obj w0)) w"
    using exec_stop_inv assms(4) by blast
  have nl: "\<not> live w" and d: "dead (obj w) = Some True"
    and f: "ev (obj w0) \<noteq> None \<longrightarrow> loop w = Some (Finished None)"
    using inv assms(5) by (simp_all add: stop_inv_def)
  have "\<forall>ls' w'. exec cfg ls' w = Some w' \<longrightarrow> w' = w"
    using quiescent [OF assms(5) nl] by blast
  then show ?thesis
    using nl d f by auto
qed

theorem stop_returns_after_loop_exit_witness:
  "started (obj running) \<and> caller running = StopEntry \<and> ev (obj running) = Some GreenThread
   \<and> exec cfg0 sched_stop running = Some stopped
   \<and> caller stopped = StopReturned
   \<and> loop stopped = Some (Finished None)
   \<and> dead (obj stopped) = Some True
   \<and> count_list (trace stopped) DriverHeartbeat = 1
   \<and> exec cfg0 [StopStep None, StopStep None, StopStep None, StopStep None] running = None"
proof -
  have s: "started (obj running)" and c: "caller running = StopEntry"
    and g: "ev (obj running) = Some GreenThread"
    by (simp_all add: fixture_defs model_defs)
  have l: "live running \<longrightarrow> ev (obj running) \<noteq> None"
    using g by simp
  have ex: "exec cfg0 sched_stop running = Some stopped"
    by (simp add: run_defs fixture_defs model_defs)
  have r: "caller stopped = StopReturned"
    by (simp add: run_defs fixture_defs model_defs)
  have n: "count_list (trace stopped) DriverHeartbeat = 1"
    by (simp add: run_defs fixture_defs model_defs)
  have b: "exec cfg0 [StopStep None, StopStep None, StopStep None, StopStep None] running = None"
    by (simp add: run_defs fixture_defs model_defs)
  have "dead (obj stopped) = Some True" and "loop stopped = Some (Finished None)"
    using stop_returns_after_loop_exit [OF s c l ex r] g by simp_all
  then show ?thesis
    using s c g ex r n b by blast
qed

end
